theory Spec2Isabelle
  imports Main "HOL-Library.Word"
begin

unbundle bit_operations_syntax

section \<open>Data model\<close>

text \<open>
  The package keeps every node behind a \<^verbatim>\<open>*Quadtree\<close>. A pointer is \<open>None\<close> (nil) or
  the address of a node in the heap; the heap is the list of all nodes allocated so far
  (an address is an index), so a fresh allocation appends. \<^verbatim>\<open>Dim\<close> is \<^verbatim>\<open>int64\<close>:
  a 64-bit word read in two's complement (\<open>sint\<close>, \<open>\<le>s\<close>, \<open><s\<close>); \<^verbatim>\<open>uint\<close> is a
  64-bit word read unsigned.
\<close>

type_synonym Dim = "64 word"
type_synonym ptr = "nat option"

datatype Childs = Childs (SE: ptr) (SW: ptr) (NW: ptr) (NE: ptr)

datatype Quadtree = Quadtree (Level: "64 word") (childs: Childs) (Population: Dim) (nxt: ptr)

text \<open>
  The package state: the heap, the cache \<^verbatim>\<open>nodeMap\<close> (a Go map from the four child pointers
  to a node pointer, kept as an association list; a key is inserted only after a failed
  lookup, so the list's length is the map's \<^verbatim>\<open>len\<close>), and the two counters.
\<close>

record state =
  heap :: "Quadtree list"
  nodeMap :: "(Childs \<times> ptr) list"
  cacheHit :: "64 word"
  cacheMiss :: "64 word"

text \<open>
  A panic ends the call; it is the \<open>Inl\<close> of a result. \<open>NilDereference\<close> is Go's run-time
  panic for a field read through nil. \<open>InvalidAddress\<close> is a pointer past the heap, which
  no Go program can hold; the model needs it to be total.
\<close>

datatype error =
    NilDereference
  | InvalidAddress
  | GrowBeyond "64 word"
  | GrowBaby "64 word"
  | CoordinatesTooBig Dim Dim
  | SlowSimulationLevel

definition bind_err :: "error + 'a \<Rightarrow> ('a \<Rightarrow> error + 'b) \<Rightarrow> error + 'b" where
  "bind_err m f = (case m of Inl e \<Rightarrow> Inl e | Inr v \<Rightarrow> f v)"

text \<open>
  A function whose recursion follows pointers, or loops until a test succeeds, returns an
  option of a result: \<open>None\<close> is a call that never returns.
\<close>

definition bindP :: "(error + 'a) option \<Rightarrow> ('a \<Rightarrow> (error + 'b) option) \<Rightarrow> (error + 'b) option" where
  "bindP m f = Option.bind m (\<lambda>r. case r of Inl e \<Rightarrow> Some (Inl e) | Inr v \<Rightarrow> f v)"

lemma bindP_mono [partial_function_mono]:
  assumes mf: "mono_option B" and mg: "\<And>y. mono_option (\<lambda>f. C y f)"
  shows "mono_option (\<lambda>f. bindP (B f) (\<lambda>y. C y f))"
  unfolding bindP_def
proof (rule bind_mono [OF mf])
  fix r :: "error + 'c"
  show "mono_option (\<lambda>f. case r of Inl e \<Rightarrow> Some (Inl e) | Inr v \<Rightarrow> C v f)"
    by (cases r) (simp_all add: mg option.const_mono)
qed

text \<open>
  Go's \<^verbatim>\<open>x << n\<close> with an unsigned count: the bits shifted past the width are lost, and
  the result is 0 once the count reaches the width.
\<close>

definition shl :: "Dim \<Rightarrow> 64 word \<Rightarrow> Dim" where
  "shl x n = (if 64 \<le> n then 0 else push_bit (unat n) x)"

definition liveLeaf :: ptr where
  "liveLeaf = Some 0"

definition deadLeaf :: ptr where
  "deadLeaf = Some 1"

definition init_state :: state where
  "init_state = \<lparr> heap = [Quadtree 0 (Childs None None None None) 1 None,
                           Quadtree 0 (Childs None None None None) 0 None],
                  nodeMap = [], cacheHit = 0, cacheMiss = 0 \<rparr>"

definition deref :: "state \<Rightarrow> ptr \<Rightarrow> error + Quadtree" where
  "deref s p = (case p of
       None \<Rightarrow> Inl NilDereference
     | Some a \<Rightarrow> if a < length (heap s) then Inr (heap s ! a) else Inl InvalidAddress)"

text \<open>\<^verbatim>\<open>qt.SE\<close>, \<^verbatim>\<open>qt.SW\<close>, ...: a child pointer read through \<open>qt\<close>.\<close>

definition child :: "state \<Rightarrow> ptr \<Rightarrow> (Childs \<Rightarrow> ptr) \<Rightarrow> error + ptr" where
  "child s qt sel = bind_err (deref s qt) (\<lambda>n. Inr (sel (childs n)))"

section \<open>Construction\<close>

definition population :: "state \<Rightarrow> Childs \<Rightarrow> error + Dim" where
  "population s ch =
     bind_err (deref s (SE ch)) (\<lambda>se.
     bind_err (deref s (SW ch)) (\<lambda>sw.
     bind_err (deref s (NW ch)) (\<lambda>nw.
     bind_err (deref s (NE ch)) (\<lambda>ne.
       Inr (Population se + Population sw + Population nw + Population ne)))))"

definition NewTree :: "state \<Rightarrow> Childs \<Rightarrow> error + (ptr \<times> state)" where
  "NewTree s ch =
     (case map_of (nodeMap s) ch of
        Some qt \<Rightarrow> Inr (qt, s\<lparr>cacheHit := cacheHit s + 1\<rparr>)
      | None \<Rightarrow>
          bind_err (deref s (NE ch)) (\<lambda>ne.
          bind_err (population s ch) (\<lambda>pop.
            let q = Quadtree (Level ne + 1) ch pop None;
                a = length (heap s);
                s' = s\<lparr>cacheMiss := cacheMiss s + 1, heap := heap s @ [q]\<rparr>
            in Inr (Some a,
                    if Population q = 0 \<or> Level q \<le> 16
                    then s'\<lparr>nodeMap := (ch, Some a) # nodeMap s'\<rparr> else s'))))"

function EmptyTree :: "state \<Rightarrow> 64 word \<Rightarrow> error + (ptr \<times> state)" where
  "EmptyTree s level =
     (if level = 0 \<or> level + 1 = 0 \<or> level + 2 = 0 then Inr (deadLeaf, s)
      else bind_err (EmptyTree s (level - 1)) (\<lambda>(c, s').
             NewTree s' (Childs c c c c)))"
  by pat_completeness auto
termination
  by (relation "measure (\<lambda>(s, level). unat level)") (auto simp: unat_minus_one unat_gt_0)

declare EmptyTree.simps [simp del]

definition grow :: "state \<Rightarrow> ptr \<Rightarrow> error + (ptr \<times> state)" where
  "grow s qt =
     bind_err (deref s qt) (\<lambda>n.
       if 63 \<le> Level n then Inl (GrowBeyond (Level n))
       else if Level n < 1 then Inl (GrowBaby (Level n))
       else
         bind_err (EmptyTree s (Level n - 1)) (\<lambda>(emptyChild, s0).
         bind_err (NewTree s0 (Childs emptyChild emptyChild (SE (childs n)) emptyChild)) (\<lambda>(se, s1).
         bind_err (NewTree s1 (Childs emptyChild emptyChild emptyChild (SW (childs n)))) (\<lambda>(sw, s2).
         bind_err (NewTree s2 (Childs (NW (childs n)) emptyChild emptyChild emptyChild)) (\<lambda>(nw, s3).
         bind_err (NewTree s3 (Childs emptyChild (NE (childs n)) emptyChild emptyChild)) (\<lambda>(ne, s4).
           NewTree s4 (Childs se sw nw ne)))))))"

partial_function (option) GrowToFit :: "state \<Rightarrow> ptr \<Rightarrow> Dim \<Rightarrow> Dim \<Rightarrow> (error + (ptr \<times> state)) option" where
  "GrowToFit s qt x y =
     bindP (Some (deref s qt)) (\<lambda>n.
       let maxCoordinate = shl 1 (Level n - 1) in
       if x \<le>s maxCoordinate - 1 \<and> y \<le>s maxCoordinate - 1
          \<and> - maxCoordinate \<le>s x \<and> - maxCoordinate \<le>s y
       then Some (Inr (qt, s))
       else bindP (Some (grow s qt)) (\<lambda>(qt', s'). GrowToFit s' qt' x y))"

declare GrowToFit.simps [code]

section \<open>Cells\<close>

partial_function (option) SetCell :: "state \<Rightarrow> ptr \<Rightarrow> Dim \<Rightarrow> Dim \<Rightarrow> Dim \<Rightarrow> (error + (ptr \<times> state)) option" where
  "SetCell s qt x y v =
     bindP (Some (deref s qt)) (\<lambda>n.
       if Level n = 0 then
         (if x <s - 1 \<or> 0 <s x \<or> y <s - 1 \<or> 0 <s y then Some (Inl (CoordinatesTooBig x y))
          else if v = 0 then Some (Inr (deadLeaf, s)) else Some (Inr (liveLeaf, s)))
       else
         let distanceToOrigin = shl 1 (Level n - 2); c = childs n in
         if 0 \<le>s x then
           (if 0 \<le>s y then
              bindP (SetCell s (SE c) (x - distanceToOrigin) (y - distanceToOrigin) v) (\<lambda>(r, s').
                Some (NewTree s' (Childs r (SW c) (NW c) (NE c))))
            else
              bindP (SetCell s (NE c) (x - distanceToOrigin) (y + distanceToOrigin) v) (\<lambda>(r, s').
                Some (NewTree s' (Childs (SE c) (SW c) (NW c) r))))
         else
           (if 0 \<le>s y then
              bindP (SetCell s (SW c) (x + distanceToOrigin) (y - distanceToOrigin) v) (\<lambda>(r, s').
                Some (NewTree s' (Childs (SE c) r (NW c) (NE c))))
            else
              bindP (SetCell s (NW c) (x + distanceToOrigin) (y + distanceToOrigin) v) (\<lambda>(r, s').
                Some (NewTree s' (Childs (SE c) (SW c) r (NE c))))))"

partial_function (option) findLeaf :: "state \<Rightarrow> ptr \<Rightarrow> Dim \<Rightarrow> Dim \<Rightarrow> (error + ptr) option" where
  "findLeaf s qt x y =
     bindP (Some (deref s qt)) (\<lambda>n.
       if Level n = 0 then
         (if x <s - 1 \<or> 0 <s x \<or> y <s - 1 \<or> 0 <s y then Some (Inl (CoordinatesTooBig x y))
          else Some (Inr qt))
       else
         let distanceToOrigin = shl 1 (Level n - 2); c = childs n in
         if 0 \<le>s x then
           (if 0 \<le>s y then findLeaf s (SE c) (x - distanceToOrigin) (y - distanceToOrigin)
            else findLeaf s (NE c) (x - distanceToOrigin) (y + distanceToOrigin))
         else
           (if 0 \<le>s y then findLeaf s (SW c) (x + distanceToOrigin) (y - distanceToOrigin)
            else findLeaf s (NW c) (x + distanceToOrigin) (y + distanceToOrigin)))"

declare SetCell.simps [code]

declare findLeaf.simps [code]

definition Cell :: "state \<Rightarrow> ptr \<Rightarrow> Dim \<Rightarrow> Dim \<Rightarrow> (error + Dim) option" where
  "Cell s qt x y =
     bindP (findLeaf s qt x y) (\<lambda>leaf.
     bindP (Some (deref s leaf)) (\<lambda>n. Some (Inr (Population n))))"

section \<open>Centering\<close>

text \<open>\<^verbatim>\<open>qt.A.B\<close> and \<^verbatim>\<open>qt.A.B.C\<close>: each step reads a field through the pointer before it.\<close>

definition child2 :: "state \<Rightarrow> ptr \<Rightarrow> (Childs \<Rightarrow> ptr) \<Rightarrow> (Childs \<Rightarrow> ptr) \<Rightarrow> error + ptr" where
  "child2 s qt a b = bind_err (child s qt a) (\<lambda>p. child s p b)"

definition child3 :: "state \<Rightarrow> ptr \<Rightarrow> (Childs \<Rightarrow> ptr) \<Rightarrow> (Childs \<Rightarrow> ptr) \<Rightarrow> (Childs \<Rightarrow> ptr) \<Rightarrow> error + ptr" where
  "child3 s qt a b c = bind_err (child2 s qt a b) (\<lambda>p. child s p c)"

definition centeredSubnode :: "state \<Rightarrow> ptr \<Rightarrow> error + (ptr \<times> state)" where
  "centeredSubnode s qt =
     bind_err (child2 s qt SE NW) (\<lambda>se.
     bind_err (child2 s qt SW NE) (\<lambda>sw.
     bind_err (child2 s qt NW SE) (\<lambda>nw.
     bind_err (child2 s qt NE SW) (\<lambda>ne.
       NewTree s (Childs se sw nw ne)))))"

definition centeredHorizontal :: "state \<Rightarrow> ptr \<Rightarrow> ptr \<Rightarrow> error + (ptr \<times> state)" where
  "centeredHorizontal s w e =
     bind_err (child2 s e SW NW) (\<lambda>se.
     bind_err (child2 s e NW SW) (\<lambda>ne.
     bind_err (child2 s w SE NE) (\<lambda>sw.
     bind_err (child2 s w NE SE) (\<lambda>nw.
       NewTree s (Childs se sw nw ne)))))"

definition centeredVertical :: "state \<Rightarrow> ptr \<Rightarrow> ptr \<Rightarrow> error + (ptr \<times> state)" where
  "centeredVertical s n s' =
     bind_err (child2 s s' NE NW) (\<lambda>se.
     bind_err (child2 s s' NW NE) (\<lambda>sw.
     bind_err (child2 s n SW SE) (\<lambda>nw.
     bind_err (child2 s n SE SW) (\<lambda>ne.
       NewTree s (Childs se sw nw ne)))))"

definition centeredSubSubnode :: "state \<Rightarrow> ptr \<Rightarrow> error + (ptr \<times> state)" where
  "centeredSubSubnode s qt =
     bind_err (child3 s qt SE NW NW) (\<lambda>se.
     bind_err (child3 s qt SW NE NE) (\<lambda>sw.
     bind_err (child3 s qt NW SE SE) (\<lambda>nw.
     bind_err (child3 s qt NE SW SW) (\<lambda>ne.
       NewTree s (Childs se sw nw ne)))))"

section \<open>The generation engine\<close>

text \<open>The loop of \<^verbatim>\<open>oneGen\<close>: clear the least significant set bit until none is left.\<close>

function countLoop :: "16 word \<Rightarrow> int \<Rightarrow> int" where
  "countLoop bitmask neighborCount =
     (if bitmask = 0 then neighborCount
      else countLoop (bitmask AND (bitmask - 1)) (neighborCount + 1))"
  by pat_completeness auto
termination
proof (relation "measure (\<lambda>(bitmask, neighborCount). unat bitmask)")
  show "wf (measure (\<lambda>(bitmask :: 16 word, neighborCount :: int). unat bitmask))"
    by simp
next
  fix bitmask :: "16 word" and neighborCount :: int
  assume nz: "bitmask \<noteq> 0"
  have "bitmask AND (bitmask - 1) \<le> bitmask - 1"
    by (rule word_and_le1)
  also have "bitmask - 1 < bitmask"
    using nz by (simp add: word_less_nat_alt unat_minus_one unat_gt_0)
  finally show "((bitmask AND (bitmask - 1), neighborCount + 1), (bitmask, neighborCount))
      \<in> measure (\<lambda>(bitmask, neighborCount). unat bitmask)"
    by (simp add: word_less_nat_alt)
qed

declare countLoop.simps [simp del]

definition oneGen :: "16 word \<Rightarrow> ptr" where
  "oneGen bitmask =
     (if bitmask = 0 then deadLeaf
      else
        let self = drop_bit 5 bitmask AND 1;
            neighborCount = countLoop (bitmask AND 0x757) 0
        in if neighborCount = 3 \<or> (neighborCount = 2 \<and> self \<noteq> 0) then liveLeaf else deadLeaf)"

text \<open>
  The two nested loops of \<^verbatim>\<open>slowSimulation\<close> read the sixteen cells, \<open>y\<close> outside and \<open>x\<close>
  inside, both from -2 to 1, and shift each into the low bit of \<open>allbits\<close>.
\<close>

definition scanOrder :: "(Dim \<times> Dim) list" where
  "scanOrder = concat (map (\<lambda>y. map (\<lambda>x. (x, y)) [- 2, - 1, 0, 1]) [- 2, - 1, 0, 1])"

fun packCells :: "state \<Rightarrow> ptr \<Rightarrow> (Dim \<times> Dim) list \<Rightarrow> 16 word \<Rightarrow> (error + 16 word) option" where
  "packCells s qt [] allbits = Some (Inr allbits)"
| "packCells s qt ((x, y) # rest) allbits =
     bindP (Cell s qt x y) (\<lambda>c. packCells s qt rest (push_bit 1 allbits + ucast c))"

definition slowSimulation :: "state \<Rightarrow> ptr \<Rightarrow> (error + (ptr \<times> state)) option" where
  "slowSimulation s qt =
     bindP (Some (deref s qt)) (\<lambda>n.
       if Level n \<noteq> 2 then Some (Inl SlowSimulationLevel)
       else
         bindP (packCells s qt scanOrder 0) (\<lambda>allbits.
           Some (NewTree s (Childs (oneGen allbits) (oneGen (drop_bit 1 allbits))
                                   (oneGen (drop_bit 5 allbits)) (oneGen (drop_bit 4 allbits))))))"

text \<open>\<^verbatim>\<open>qt.next = nextGen\<close>: the one write to a node after its allocation.\<close>

definition set_next :: "state \<Rightarrow> ptr \<Rightarrow> ptr \<Rightarrow> error + state" where
  "set_next s qt r =
     (case qt of
        None \<Rightarrow> Inl NilDereference
      | Some a \<Rightarrow>
          if a < length (heap s)
          then Inr (s\<lparr>heap := (heap s)[a := Quadtree (Level (heap s ! a)) (childs (heap s ! a))
                                                   (Population (heap s ! a)) r]\<rparr>)
          else Inl InvalidAddress)"

text \<open>
  In the composite literals of \<^verbatim>\<open>NextGeneration\<close> the fields are named and written in the
  order NW, NE, SW, SE; Go evaluates them in that order. \<open>Childs\<close> takes them in the order
  of the struct: SE, SW, NW, NE.
\<close>

partial_function (option) NextGeneration :: "state \<Rightarrow> ptr \<Rightarrow> (error + (ptr \<times> state)) option" where
  "NextGeneration s qt =
     bindP (Some (deref s qt)) (\<lambda>n.
       if nxt n \<noteq> None then Some (Inr (nxt n, s))
       else if Level n = 2 then slowSimulation s qt
       else
         let c = childs n in
         bindP (Some (centeredSubnode s (NW c))) (\<lambda>(n00, s1).
         bindP (Some (centeredHorizontal s1 (NW c) (NE c))) (\<lambda>(n01, s2).
         bindP (Some (centeredSubnode s2 (NE c))) (\<lambda>(n02, s3).
         bindP (Some (centeredVertical s3 (NW c) (SW c))) (\<lambda>(n10, s4).
         bindP (Some (centeredSubSubnode s4 qt)) (\<lambda>(n11, s5).
         bindP (Some (centeredVertical s5 (NE c) (SE c))) (\<lambda>(n12, s6).
         bindP (Some (centeredSubnode s6 (SW c))) (\<lambda>(n20, s7).
         bindP (Some (centeredHorizontal s7 (SW c) (SE c))) (\<lambda>(n21, s8).
         bindP (Some (centeredSubnode s8 (SE c))) (\<lambda>(n22, s9).
         bindP (Some (NewTree s9 (Childs n11 n10 n00 n01))) (\<lambda>(b00, s10).
         bindP (NextGeneration s10 b00) (\<lambda>(nw, s11).
         bindP (Some (NewTree s11 (Childs n12 n11 n01 n02))) (\<lambda>(b01, s12).
         bindP (NextGeneration s12 b01) (\<lambda>(ne, s13).
         bindP (Some (NewTree s13 (Childs n21 n20 n10 n11))) (\<lambda>(b10, s14).
         bindP (NextGeneration s14 b10) (\<lambda>(sw, s15).
         bindP (Some (NewTree s15 (Childs n22 n21 n11 n12))) (\<lambda>(b11, s16).
         bindP (NextGeneration s16 b11) (\<lambda>(se, s17).
         bindP (Some (NewTree s17 (Childs se sw nw ne))) (\<lambda>(nextGen, s18).
         bindP (Some (set_next s18 qt nextGen)) (\<lambda>s19.
           Some (Inr (nextGen, s19))))))))))))))))))))))"

declare NextGeneration.simps [code]

text \<open>
  \<^verbatim>\<open>NextGen\<close> holds the mutex for the whole call; the model is sequential. A cache of more
  than 13000000 entries (\<^verbatim>\<open>len\<close> is an \<^verbatim>\<open>int\<close>) is replaced by an empty one first.
\<close>

definition NextGen :: "state \<Rightarrow> ptr \<Rightarrow> (error + (ptr \<times> state)) option" where
  "NextGen s qt =
     (let s' = (if 13000000 < int (length (nodeMap s)) then s\<lparr>nodeMap := []\<rparr> else s) in
      bindP (Some (grow s' qt)) (\<lambda>(g, s''). NextGeneration s'' g))"

section \<open>Results and their composition\<close>

lemma bind_err_Inr [simp]: "bind_err (Inr v) f = f v"
  by (simp add: bind_err_def)

lemma bind_err_Inl [simp]: "bind_err (Inl e) f = Inl e"
  by (simp add: bind_err_def)

lemma bindP_Inr [simp]: "bindP (Some (Inr v)) f = f v"
  by (simp add: bindP_def)

lemma bindP_Inl [simp]: "bindP (Some (Inl e)) f = Some (Inl e)"
  by (simp add: bindP_def)

lemma bindP_None [simp]: "bindP None f = None"
  by (simp add: bindP_def)

lemma shl_big: "64 \<le> n \<Longrightarrow> shl x n = 0"
  by (simp add: shl_def)

section \<open>Growing a leaf\<close>

text \<open>
  C10. \<^verbatim>\<open>GrowToFit\<close> on a node of level 0 panics for every \<open>(x, y)\<close>: the shift count
  \<open>Level - 1\<close> wraps, \<open>maxCoordinate\<close> is 0, the test asks for \<open>x \<le> -1\<close> and \<open>x \<ge> 0\<close> at once,
  and \<^verbatim>\<open>grow\<close> refuses the node. \<^verbatim>\<open>grow\<close> refuses every node of level below 1 and every
  node of level 63 or more.
\<close>

theorem GrowToFit_leaf_panics:
  assumes "deref s qt = Inr n"
  shows "(Level n = 0 \<longrightarrow> GrowToFit s qt x y = Some (Inl (GrowBaby 0)))
       \<and> (Level n < 1 \<longrightarrow> grow s qt = Inl (GrowBaby (Level n)))
       \<and> (63 \<le> Level n \<longrightarrow> grow s qt = Inl (GrowBeyond (Level n)))"
proof (intro conjI impI)
  assume l0: "Level n = 0"
  have g: "grow s qt = Inl (GrowBaby 0)"
    using assms l0 by (simp add: grow_def)
  show "GrowToFit s qt x y = Some (Inl (GrowBaby 0))"
    using assms l0 g
    by (subst GrowToFit.simps) (simp add: shl_big word_sle_eq)
next
  assume "Level n < 1"
  then have "\<not> 63 \<le> Level n"
    by (simp add: word_less_nat_alt word_le_nat_alt)
  then show "grow s qt = Inl (GrowBaby (Level n))"
    using assms \<open>Level n < 1\<close> by (simp add: grow_def)
next
  assume "63 \<le> Level n"
  then show "grow s qt = Inl (GrowBeyond (Level n))"
    using assms by (simp add: grow_def)
qed

theorem GrowToFit_leaf_panics_witness:
  "GrowToFit init_state deadLeaf 5 (- 3) = Some (Inl (GrowBaby 0))
   \<and> GrowToFit init_state liveLeaf 0 0 = Some (Inl (GrowBaby 0))
   \<and> grow init_state deadLeaf = Inl (GrowBaby 0)"
proof -
  have d: "deref init_state deadLeaf = Inr (Quadtree 0 (Childs None None None None) 0 None)"
    by (simp add: deref_def deadLeaf_def init_state_def)
  have l: "deref init_state liveLeaf = Inr (Quadtree 0 (Childs None None None None) 1 None)"
    by (simp add: deref_def liveLeaf_def init_state_def)
  show ?thesis
    using GrowToFit_leaf_panics [OF d, of 5 "- 3"] GrowToFit_leaf_panics [OF l, of 0 0]
    by simp
qed

section \<open>What NewTree checks\<close>

text \<open>The state after \<^verbatim>\<open>EmptyTree(1)\<close> from the initial one: one node of level 1 beside the leaves.\<close>

definition level1_state :: state where
  "level1_state = \<lparr> heap = [Quadtree 0 (Childs None None None None) 1 None,
                             Quadtree 0 (Childs None None None None) 0 None,
                             Quadtree 1 (Childs (Some 1) (Some 1) (Some 1) (Some 1)) 0 None],
                     nodeMap = [(Childs (Some 1) (Some 1) (Some 1) (Some 1), Some 2)],
                     cacheHit = 0, cacheMiss = 1 \<rparr>"

text \<open>
  C5, as the code has it. \<^verbatim>\<open>NewTree\<close> returns a node whenever its four children are
  nodes (not nil), whatever their levels: it never compares them. On a cache miss the node
  is new, its level is the level of the NE child plus one and its population the sum of
  the four.
\<close>

theorem NewTree_never_fails:
  assumes "deref s (SE ch) = Inr a" and "deref s (SW ch) = Inr b"
    and "deref s (NW ch) = Inr c" and "deref s (NE ch) = Inr d"
  shows "\<exists>r s'. NewTree s ch = Inr (r, s')
           \<and> (map_of (nodeMap s) ch = None \<longrightarrow>
                r = Some (length (heap s))
                \<and> deref s' r = Inr (Quadtree (Level d + 1) ch
                     (Population a + Population b + Population c + Population d) None))"
proof (cases "map_of (nodeMap s) ch")
  case None
  then show ?thesis
    using assms by (simp add: NewTree_def population_def Let_def deref_def)
next
  case (Some qt)
  then show ?thesis
    by (simp add: NewTree_def)
qed

theorem NewTree_never_fails_witness:
  "\<exists>s'. NewTree level1_state (Childs deadLeaf deadLeaf deadLeaf (Some 2)) = Inr (Some 3, s')
        \<and> deref s' (Some 3) = Inr (Quadtree 2 (Childs deadLeaf deadLeaf deadLeaf (Some 2)) 0 None)"
proof -
  have d: "deref level1_state deadLeaf = Inr (Quadtree 0 (Childs None None None None) 0 None)"
    by (simp add: level1_state_def deadLeaf_def deref_def)
  have t: "deref level1_state (Some 2) = Inr (Quadtree 1 (Childs (Some 1) (Some 1) (Some 1) (Some 1)) 0 None)"
    by (simp add: level1_state_def deref_def)
  have m: "map_of (nodeMap level1_state) (Childs deadLeaf deadLeaf deadLeaf (Some 2)) = None"
    by (simp add: level1_state_def deadLeaf_def)
  have l: "length (heap level1_state) = 3"
    by (simp add: level1_state_def)
  show ?thesis
    using NewTree_never_fails [of level1_state "Childs deadLeaf deadLeaf deadLeaf (Some 2)", simplified, OF d d d t] m l
    by auto
qed

text \<open>
  C5, as stated, fails: children of differing levels (three dead leaves and a node of
  level 1) are not rejected; \<^verbatim>\<open>NewTree\<close> returns a node of level 2.
\<close>

theorem NewTree_mixed_levels:
  "EmptyTree init_state 1 = Inr (Some 2, level1_state)
   \<and> deref level1_state deadLeaf = Inr (Quadtree 0 (Childs None None None None) 0 None)
   \<and> deref level1_state (Some 2) = Inr (Quadtree 1 (Childs (Some 1) (Some 1) (Some 1) (Some 1)) 0 None)
   \<and> NewTree level1_state (Childs deadLeaf deadLeaf deadLeaf (Some 2))
       = Inr (Some 3, level1_state\<lparr>
           heap := heap level1_state @ [Quadtree 2 (Childs (Some 1) (Some 1) (Some 1) (Some 2)) 0 None],
           nodeMap := (Childs (Some 1) (Some 1) (Some 1) (Some 2), Some 3) # nodeMap level1_state,
           cacheMiss := 2\<rparr>)"
  by (simp add: level1_state_def init_state_def deadLeaf_def EmptyTree.simps NewTree_def population_def
      deref_def Let_def)

end
